theory Spec2Isabelle
  imports Main "HOL-Library.Sublist" "HOL-Library.Multiset"
begin

section \<open>The Go runtime and standard library, as far as vcsv uses them\<close>

subsection \<open>Kinds and types (package reflect)\<close>

text \<open>\<open>reflect.Kind\<close>, all of its values in declaration order.\<close>

datatype kind =
    KInvalid | KBool
  | KInt | KInt8 | KInt16 | KInt32 | KInt64
  | KUint | KUint8 | KUint16 | KUint32 | KUint64 | KUintptr
  | KFloat32 | KFloat64 | KComplex64 | KComplex128
  | KArray | KChan | KFunc | KInterface | KMap | KPtr | KSlice | KString | KStruct
  | KUnsafePointer

text \<open>
  A \<open>reflect.Type\<close>. \<open>Named n k u\<close> is any type that is not written as a pointer:
  its name (\<open>int\<close>, \<open>time.Time\<close>, \<open>net.IP\<close>), its kind, and whether
  the method set of the pointer to it has \<open>UnmarshalText\<close>, i.e. whether
  \<open>reflect.PtrTo(t).Implements(encoding.TextUnmarshaler)\<close>. \<open>PtrTo t\<close> is \<open>*t\<close>.
  Two types are identical when the terms are equal.
\<close>

datatype go_type = Named string kind bool | PtrTo go_type

fun Kind :: "go_type \<Rightarrow> kind" where
  "Kind (Named n k u) = k"
| "Kind (PtrTo t) = KPtr"

text \<open>\<open>Type.Elem\<close>; vcsv calls it on types of kind \<open>Ptr\<close> only.\<close>

fun Elem :: "go_type \<Rightarrow> go_type" where
  "Elem (PtrTo t) = t"
| "Elem (Named n k u) = Named n k u"

text \<open>\<open>reflect.PtrTo(t).Implements(unmarshalerType)\<close>: a pointer to a pointer has no methods.\<close>

fun PtrTo_Implements_TextUnmarshaler :: "go_type \<Rightarrow> bool" where
  "PtrTo_Implements_TextUnmarshaler (Named n k u) = u"
| "PtrTo_Implements_TextUnmarshaler (PtrTo t) = False"

text \<open>\<open>Type.Bits\<close> on the arithmetic kinds; \<open>intSize\<close> is the platform's \<open>strconv.IntSize\<close>.\<close>

fun Bits :: "nat \<Rightarrow> kind \<Rightarrow> nat" where
  "Bits intSize KInt = intSize"
| "Bits intSize KInt8 = 8"
| "Bits intSize KInt16 = 16"
| "Bits intSize KInt32 = 32"
| "Bits intSize KInt64 = 64"
| "Bits intSize KUint = intSize"
| "Bits intSize KUint8 = 8"
| "Bits intSize KUint16 = 16"
| "Bits intSize KUint32 = 32"
| "Bits intSize KUint64 = 64"
| "Bits intSize KUintptr = intSize"
| "Bits intSize KFloat32 = 32"
| "Bits intSize KFloat64 = 64"
| "Bits intSize KComplex64 = 64"
| "Bits intSize KComplex128 = 128"
| "Bits intSize k = 0"

text \<open>\<open>Kind.String\<close>, used by the \<open>%s\<close> verbs of the error messages.\<close>

fun kind_String :: "kind \<Rightarrow> string" where
  "kind_String KInvalid = ''invalid''"
| "kind_String KBool = ''bool''"
| "kind_String KInt = ''int''"
| "kind_String KInt8 = ''int8''"
| "kind_String KInt16 = ''int16''"
| "kind_String KInt32 = ''int32''"
| "kind_String KInt64 = ''int64''"
| "kind_String KUint = ''uint''"
| "kind_String KUint8 = ''uint8''"
| "kind_String KUint16 = ''uint16''"
| "kind_String KUint32 = ''uint32''"
| "kind_String KUint64 = ''uint64''"
| "kind_String KUintptr = ''uintptr''"
| "kind_String KFloat32 = ''float32''"
| "kind_String KFloat64 = ''float64''"
| "kind_String KComplex64 = ''complex64''"
| "kind_String KComplex128 = ''complex128''"
| "kind_String KArray = ''array''"
| "kind_String KChan = ''chan''"
| "kind_String KFunc = ''func''"
| "kind_String KInterface = ''interface''"
| "kind_String KMap = ''map''"
| "kind_String KPtr = ''ptr''"
| "kind_String KSlice = ''slice''"
| "kind_String KString = ''string''"
| "kind_String KStruct = ''struct''"
| "kind_String KUnsafePointer = ''unsafe.Pointer''"

subsection \<open>Errors, panics and results\<close>

datatype num_err = ErrSyntax | ErrRange | ErrBitSize nat

text \<open>
  Error values. \<open>Errorf\<close> is \<open>fmt.Errorf\<close> without \<open>%w\<close> (the formatted text);
  \<open>Wrapf txt e\<close> is \<open>fmt.Errorf\<close> whose format ends in \<open>%w\<close>: the text before the
  cause, and the cause. \<open>NumError\<close> is \<open>*strconv.NumError{Func, Num, Err}\<close>,
  \<open>ParseError\<close> is \<open>*time.ParseError{Layout, Value, LayoutElem, ValueElem}\<close>, and
  \<open>Foreign\<close> is any other error of a library or of a user's decoder, by its message.
\<close>

datatype error =
    ErrorString string
  | Errorf string
  | Wrapf string error
  | NumError string string num_err
  | ParseError string string string string
  | Foreign string

text \<open>Run-time panics that vcsv can reach.\<close>

datatype panic =
    IndexOutOfRange int nat
  | NotAssignable go_type go_type
  | UnexportedField

text \<open>What a call that yields \<open>(T, error)\<close> does: return a value, return an error, or panic.\<close>

datatype 'r result = Ok 'r | Err error | Panic panic

text \<open>What a call that yields only \<open>error\<close> does.\<close>

datatype outcome = Done | Failed error | Panicked panic

text \<open>Indexing a slice with a signed index: the runtime's bounds check.\<close>

definition index :: "'b list \<Rightarrow> int \<Rightarrow> panic + 'b" where
  "index xs i =
     (if 0 \<le> i \<and> i < int (length xs) then Inr (xs ! nat i)
      else Inl (IndexOutOfRange i (length xs)))"

subsection \<open>Values (package reflect)\<close>

text \<open>
  The data of a value. Floating-point and complex numbers, times and the values built
  by a user's \<open>UnmarshalText\<close> are opaque (\<open>'a\<close>). \<open>DZero\<close> is the zero value of a
  composite type, \<open>DNil\<close> the nil pointer, \<open>DPtr d\<close> a pointer to a fresh variable
  holding \<open>d\<close>.
\<close>

datatype 'a data =
    DBool bool | DInt int | DUint nat | DString string
  | DFloat 'a | DComplex 'a | DTime 'a | DText 'a
  | DZero | DNil | DPtr "'a data"

datatype 'a Value = Value go_type "'a data"

fun Value_Type :: "'a Value \<Rightarrow> go_type" where
  "Value_Type (Value t d) = t"

fun Value_data :: "'a Value \<Rightarrow> 'a data" where
  "Value_data (Value t d) = d"

text \<open>\<open>reflect.Zero(t)\<close>.\<close>

fun zero_data :: "kind \<Rightarrow> 'a data" where
  "zero_data KPtr = DNil"
| "zero_data KBool = DBool False"
| "zero_data KString = DString []"
| "zero_data KInt = DInt 0"
| "zero_data KInt8 = DInt 0"
| "zero_data KInt16 = DInt 0"
| "zero_data KInt32 = DInt 0"
| "zero_data KInt64 = DInt 0"
| "zero_data KUint = DUint 0"
| "zero_data KUint8 = DUint 0"
| "zero_data KUint16 = DUint 0"
| "zero_data KUint32 = DUint 0"
| "zero_data KUint64 = DUint 0"
| "zero_data KUintptr = DUint 0"
| "zero_data k = DZero"

definition Zero :: "go_type \<Rightarrow> 'a Value" where
  "Zero t = Value t (zero_data (Kind t))"

subsection \<open>The library functions taken as parameters\<close>

text \<open>
  Functions of the standard library and of the user's types that vcsv calls and whose
  results it passes on: \<open>reflect.StructTag.Get\<close>, \<open>strconv.ParseFloat\<close>,
  \<open>strconv.ParseComplex\<close>, \<open>time.Parse\<close> on a non-empty layout, \<open>time.Date\<close>
  in UTC, and \<open>UnmarshalText\<close> on a new zero value of the given type (the decoded data, or
  the decoder's error). \<open>IntSize\<close> is \<open>strconv.IntSize\<close>, 32 or 64.
\<close>

record 'a lib =
  IntSize :: nat
  StructTag_Get :: "string \<Rightarrow> string \<Rightarrow> string"
  ParseFloat :: "string \<Rightarrow> nat \<Rightarrow> error + 'a"
  ParseComplex :: "string \<Rightarrow> nat \<Rightarrow> error + 'a"
  time_Parse_layout :: "string \<Rightarrow> string \<Rightarrow> error + 'a"
  time_Date :: "int \<Rightarrow> int \<Rightarrow> int \<Rightarrow> int \<Rightarrow> int \<Rightarrow> int \<Rightarrow> int \<Rightarrow> 'a"
  UnmarshalText :: "go_type \<Rightarrow> string \<Rightarrow> error + 'a"

text \<open>
  \<open>time.Parse(layout, value)\<close>. With the empty layout \<open>nextStdChunk\<close> finds no element,
  so the parser accepts the empty value alone, with every field at its default
  (\<open>Date(0, January, 1, 0, 0, 0, 0, UTC)\<close>), and rejects any other value as extra text.
\<close>

definition time_Parse :: "'a lib \<Rightarrow> string \<Rightarrow> string \<Rightarrow> error + 'a" where
  "time_Parse L layout v =
     (if layout = [] then
        (if v = [] then Inr (time_Date L 0 1 1 0 0 0 0)
         else Inl (ParseError layout v [] v))
      else time_Parse_layout L layout v)"

subsection \<open>Package strings\<close>

definition HasPrefix :: "string \<Rightarrow> string \<Rightarrow> bool" where
  "HasPrefix s p = (length p \<le> length s \<and> take (length p) s = p)"

text \<open>\<open>strings.Split(s, sep)\<close> for a separator of one byte.\<close>

fun Split :: "string \<Rightarrow> char \<Rightarrow> string list" where
  "Split [] sep = [[]]"
| "Split (c # cs) sep =
     (if c = sep then [] # Split cs sep
      else (case Split cs sep of [] \<Rightarrow> [[c]] | x # xs \<Rightarrow> (c # x) # xs))"

text \<open>
  The UTF-8 encodings of the runes for which \<open>unicode.IsSpace\<close> holds: the six ASCII
  spaces, U+0085, U+00A0, U+1680, U+2000 to U+200A, U+2028, U+2029, U+202F, U+205F, U+3000.
\<close>

definition unicode_spaces :: "string list" where
  "unicode_spaces =
     [[CHR 0x09], [CHR 0x0A], [CHR 0x0B], [CHR 0x0C], [CHR 0x0D], [CHR 0x20],
      [CHR 0xC2, CHR 0x85], [CHR 0xC2, CHR 0xA0], [CHR 0xE1, CHR 0x9A, CHR 0x80],
      [CHR 0xE2, CHR 0x80, CHR 0x80], [CHR 0xE2, CHR 0x80, CHR 0x81],
      [CHR 0xE2, CHR 0x80, CHR 0x82], [CHR 0xE2, CHR 0x80, CHR 0x83],
      [CHR 0xE2, CHR 0x80, CHR 0x84], [CHR 0xE2, CHR 0x80, CHR 0x85],
      [CHR 0xE2, CHR 0x80, CHR 0x86], [CHR 0xE2, CHR 0x80, CHR 0x87],
      [CHR 0xE2, CHR 0x80, CHR 0x88], [CHR 0xE2, CHR 0x80, CHR 0x89],
      [CHR 0xE2, CHR 0x80, CHR 0x8A], [CHR 0xE2, CHR 0x80, CHR 0xA8],
      [CHR 0xE2, CHR 0x80, CHR 0xA9], [CHR 0xE2, CHR 0x80, CHR 0xAF],
      [CHR 0xE2, CHR 0x81, CHR 0x9F], [CHR 0xE3, CHR 0x80, CHR 0x80]]"

text \<open>The width of the first pattern that starts the string, 0 when none does.\<close>

fun leading :: "string list \<Rightarrow> string \<Rightarrow> nat" where
  "leading [] s = 0"
| "leading (w # ws) s =
     (if w \<noteq> [] \<and> length w \<le> length s \<and> take (length w) s = w then length w
      else leading ws s)"

text \<open>Dropping leading patterns while there is one; the fuel is the length of the string.\<close>

fun trim_leading :: "nat \<Rightarrow> string list \<Rightarrow> string \<Rightarrow> string" where
  "trim_leading 0 ws s = s"
| "trim_leading (Suc fuel) ws s =
     (if leading ws s = 0 then s else trim_leading fuel ws (drop (leading ws s) s))"

definition TrimLeftSpace :: "string \<Rightarrow> string" where
  "TrimLeftSpace s = trim_leading (length s) unicode_spaces s"

definition TrimRightSpace :: "string \<Rightarrow> string" where
  "TrimRightSpace s = rev (trim_leading (length s) (map rev unicode_spaces) (rev s))"

definition TrimSpace :: "string \<Rightarrow> string" where
  "TrimSpace s = TrimRightSpace (TrimLeftSpace s)"

subsection \<open>Package strconv and the \<open>%d\<close> verb\<close>

text \<open>The decimal digits of a number: \<open>strconv.FormatUint(n, 10)\<close>.\<close>

function digits :: "nat \<Rightarrow> string" where
  "digits n =
     (if n < 10 then [''0123456789'' ! n]
      else digits (n div 10) @ [''0123456789'' ! (n mod 10)])"
  by pat_completeness auto
termination
  by (relation "measure id") auto

text \<open>\<open>strconv.Itoa\<close>, which is also what \<open>%d\<close> prints for an \<open>int\<close>.\<close>

definition Itoa :: "int \<Rightarrow> string" where
  "Itoa i = (if i < 0 then CHR ''-'' # digits (nat (- i)) else digits (nat i))"

text \<open>
  The loop of \<open>strconv.ParseUint\<close> in base 10: the value read so far, or the error at
  the first byte that is no digit or that takes the value past \<open>maxVal\<close>.
\<close>

definition cutoff64 :: nat where
  "cutoff64 = (2 ^ 64 - 1) div 10 + 1"

fun ParseUint_loop :: "nat \<Rightarrow> nat \<Rightarrow> string \<Rightarrow> num_err + nat" where
  "ParseUint_loop maxVal n [] = Inr n"
| "ParseUint_loop maxVal n (c # cs) =
     (if 48 \<le> (of_char c :: nat) \<and> (of_char c :: nat) \<le> 57 then
        (if n \<ge> cutoff64 then Inl ErrRange
         else if n * 10 + (of_char c - 48) \<ge> 2 ^ 64 \<or> n * 10 + (of_char c - 48) > maxVal
           then Inl ErrRange
         else ParseUint_loop maxVal (n * 10 + (of_char c - 48)) cs)
      else Inl ErrSyntax)"

text \<open>\<open>strconv.ParseUint(s, 10, bitSize)\<close>: the pair that Go returns.\<close>

definition ParseUint :: "nat \<Rightarrow> string \<Rightarrow> nat \<Rightarrow> nat \<times> error option" where
  "ParseUint intSize s bitSize =
     (if s = [] then (0, Some (NumError ''ParseUint'' s ErrSyntax))
      else if bitSize \<noteq> 0 \<and> bitSize > 64
        then (0, Some (NumError ''ParseUint'' s (ErrBitSize bitSize)))
      else
        (let bs = (if bitSize = 0 then intSize else bitSize);
             maxVal = 2 ^ bs - 1
         in case ParseUint_loop maxVal 0 s of
              Inr n \<Rightarrow> (n, None)
            | Inl ErrRange \<Rightarrow> (maxVal, Some (NumError ''ParseUint'' s ErrRange))
            | Inl e \<Rightarrow> (0, Some (NumError ''ParseUint'' s e))))"

text \<open>\<open>strconv.ParseInt(s, 10, bitSize)\<close>.\<close>

definition ParseInt :: "nat \<Rightarrow> string \<Rightarrow> nat \<Rightarrow> int \<times> error option" where
  "ParseInt intSize s0 bitSize =
     (if s0 = [] then (0, Some (NumError ''ParseInt'' s0 ErrSyntax))
      else
        (let neg = (hd s0 = CHR ''-'');
             s = (if hd s0 = CHR ''+'' \<or> hd s0 = CHR ''-'' then tl s0 else s0);
             (un, err) = ParseUint intSize s bitSize
         in case err of
              Some (NumError f n ErrSyntax) \<Rightarrow> (0, Some (NumError ''ParseInt'' s0 ErrSyntax))
            | Some (NumError f n (ErrBitSize b)) \<Rightarrow>
                (0, Some (NumError ''ParseInt'' s0 (ErrBitSize b)))
            | _ \<Rightarrow>
                (let bs = (if bitSize = 0 then intSize else bitSize);
                     cutoff = 2 ^ (bs - 1)
                 in if \<not> neg \<and> un \<ge> cutoff
                      then (int cutoff - 1, Some (NumError ''ParseInt'' s0 ErrRange))
                    else if neg \<and> un > cutoff
                      then (- int cutoff, Some (NumError ''ParseInt'' s0 ErrRange))
                    else (if neg then - int un else int un, None))))"

text \<open>\<open>strconv.Atoi\<close>: \<open>ParseInt(s, 10, 0)\<close> with the error's function name replaced.\<close>

definition Atoi :: "nat \<Rightarrow> string \<Rightarrow> int \<times> error option" where
  "Atoi intSize s =
     (case ParseInt intSize s 0 of
        (i, Some (NumError f n e)) \<Rightarrow> (i, Some (NumError ''Atoi'' n e))
      | (i, err) \<Rightarrow> (i, err))"

definition ParseBool :: "string \<Rightarrow> bool \<times> error option" where
  "ParseBool str =
     (if str \<in> set [''1'', ''t'', ''T'', ''true'', ''TRUE'', ''True''] then (True, None)
      else if str \<in> set [''0'', ''f'', ''F'', ''false'', ''FALSE'', ''False''] then (False, None)
      else (False, Some (NumError ''ParseBool'' str ErrSyntax)))"

section \<open>vcsv\<close>

subsection \<open>The reader (reader.go)\<close>

text \<open>
  \<open>CSVReader\<close>. The \<open>encoding/csv\<close> reader is the list of what its \<open>Read\<close> will
  return from now on, record and error, end of input after the last one.
\<close>

record CSVReader =
  columnIndex :: "string \<rightharpoonup> int"
  columns :: "string list"
  reader :: "(string list \<times> error option) list"
  headerAtLine :: int

text \<open>
  \<open>Header\<close>. Go iterates over a map in an order of the runtime's choice: \<open>keys\<close> is the
  list of the map's keys in that order. \<open>sort.SliceStable\<close> is a stable sort, on the
  position stored for each key.
\<close>

definition Header :: "CSVReader \<Rightarrow> string list \<Rightarrow> string list" where
  "Header r keys =
     sort_key (\<lambda>k. case columnIndex r k of None \<Rightarrow> 0 | Some i \<Rightarrow> i) keys"

definition SetHeader :: "CSVReader \<Rightarrow> string list \<Rightarrow> CSVReader" where
  "SetHeader r cols =
     r\<lparr>columns := cols,
       columnIndex := fold (\<lambda>(i, name) m. m(name \<mapsto> int i)) (enumerate 0 cols) Map.empty\<rparr>"

definition ReadHeader :: "CSVReader \<Rightarrow> CSVReader" where
  "ReadHeader r = SetHeader r (columns r)"

text \<open>\<open>Next\<close>: the reader after the call, the error left in \<open>*err\<close>, and the result.\<close>

definition Next :: "CSVReader \<Rightarrow> CSVReader \<times> error option \<times> bool" where
  "Next r =
     (case reader r of
        [] \<Rightarrow> (r\<lparr>columns := []\<rparr>, None, False)
      | (record, None) # rest \<Rightarrow> (r\<lparr>columns := record, reader := rest\<rparr>, None, True)
      | (record, Some e) # rest \<Rightarrow> (r\<lparr>columns := record, reader := rest\<rparr>, Some e, False))"

definition Get :: "CSVReader \<Rightarrow> string \<Rightarrow> string result" where
  "Get r columnName =
     (case columnIndex r columnName of
        None \<Rightarrow> Err (Errorf (''invalid column \"'' @ columnName @ ''\"''))
      | Some i \<Rightarrow>
          if i \<ge> int (length (columns r)) then Ok []
          else (case index (columns r) i of Inl p \<Rightarrow> Panic p | Inr v \<Rightarrow> Ok v))"

definition GetByColumnIndex :: "CSVReader \<Rightarrow> int \<Rightarrow> string result" where
  "GetByColumnIndex r ci =
     (if ci \<ge> int (length (columns r)) then Ok []
      else (case index (columns r) ci of Inl p \<Rightarrow> Panic p | Inr v \<Rightarrow> Ok v))"

subsection \<open>The conversion of a raw value (converter.go)\<close>

text \<open>
  \<open>reflect.StructField\<close>: the name, the package path (empty for an exported field), the
  type and the whole tag string. The type of a field of a struct is never nil, which
  leaves the first test of \<open>convertToType\<close> without a case here.
\<close>

record StructField =
  Name :: string
  PkgPath :: string
  Type :: go_type
  Tag :: string

record tagOptions =
  columnName :: string
  index_opt :: int
  format :: string

definition time_Time :: go_type where
  "time_Time = Named ''time.Time'' KStruct True"

text \<open>\<open>reflect.ValueOf(result).Convert(t)\<close> from \<open>int64\<close> and from \<open>uint64\<close>: the low bits.\<close>

definition Convert_int :: "nat \<Rightarrow> go_type \<Rightarrow> int \<Rightarrow> 'a Value" where
  "Convert_int intSize t i =
     (let b = Bits intSize (Kind t)
      in Value t (DInt ((i + 2 ^ (b - 1)) mod 2 ^ b - 2 ^ (b - 1))))"

definition Convert_uint :: "nat \<Rightarrow> go_type \<Rightarrow> nat \<Rightarrow> 'a Value" where
  "Convert_uint intSize t n = Value t (DUint (n mod 2 ^ Bits intSize (Kind t)))"

definition handleEmptyValue :: "go_type \<Rightarrow> go_type \<Rightarrow> 'a Value" where
  "handleEmptyValue fieldType targetType =
     (if Kind fieldType = KStruct then Zero fieldType else Zero (PtrTo targetType))"

definition handleUnmarshalerConversion ::
  "'a lib \<Rightarrow> string \<Rightarrow> go_type \<Rightarrow> go_type \<Rightarrow> error + 'a Value" where
  "handleUnmarshalerConversion L v fieldType targetType =
     (if v = [] then Inr (handleEmptyValue fieldType targetType)
      else
        (let trimmedValue = TrimSpace v
         in case UnmarshalText L targetType trimmedValue of
              Inl err \<Rightarrow> Inl err
            | Inr d \<Rightarrow>
                if Kind fieldType = KPtr then Inr (Value (PtrTo targetType) (DPtr (DText d)))
                else Inr (Value targetType (DText d))))"

definition determineTargetType :: "go_type \<Rightarrow> go_type" where
  "determineTargetType t = (if Kind t = KPtr then Elem t else t)"

definition convertTextUnmarshalerType :: "'a lib \<Rightarrow> string \<Rightarrow> go_type \<Rightarrow> error + 'a Value" where
  "convertTextUnmarshalerType L v fieldType =
     (let targetType = determineTargetType fieldType
      in if PtrTo_Implements_TextUnmarshaler targetType
           then handleUnmarshalerConversion L v fieldType targetType
         else Inl (Errorf (''unsupported type '' @ kind_String (Kind fieldType))))"

definition convertByTypes ::
  "'a lib \<Rightarrow> string \<Rightarrow> go_type \<Rightarrow> tagOptions \<Rightarrow> error + 'a Value" where
  "convertByTypes L v fieldType tagOpts =
     (if fieldType = time_Time then
        (case time_Parse L (format tagOpts) v of
           Inl err \<Rightarrow> Inl err
         | Inr x \<Rightarrow> Inr (Value fieldType (DTime x)))
      else convertTextUnmarshalerType L v fieldType)"

definition convertToType ::
  "'a lib \<Rightarrow> string \<Rightarrow> StructField \<Rightarrow> tagOptions \<Rightarrow> error + 'a Value" where
  "convertToType L v field tagOpts =
     (let t = Type field in
      if Kind t \<in> set [KInt, KInt8, KInt16, KInt32, KInt64] then
        (case ParseInt (IntSize L) v (Bits (IntSize L) (Kind t)) of
           (i, Some err) \<Rightarrow> Inl err
         | (i, None) \<Rightarrow> Inr (Convert_int (IntSize L) t i))
      else if Kind t \<in> set [KUint, KUint8, KUint16, KUint32, KUint64] then
        (case ParseUint (IntSize L) v (Bits (IntSize L) (Kind t)) of
           (n, Some err) \<Rightarrow> Inl err
         | (n, None) \<Rightarrow> Inr (Convert_uint (IntSize L) t n))
      else if Kind t \<in> set [KFloat32, KFloat64] then
        (case ParseFloat L v (Bits (IntSize L) (Kind t)) of
           Inl err \<Rightarrow> Inl err
         | Inr x \<Rightarrow> Inr (Value t (DFloat x)))
      else if Kind t \<in> set [KComplex64, KComplex128] then
        (case ParseComplex L v (Bits (IntSize L) (Kind t)) of
           Inl err \<Rightarrow> Inl err
         | Inr x \<Rightarrow> Inr (Value t (DComplex x)))
      else if Kind t = KBool then
        (case ParseBool v of
           (b, Some err) \<Rightarrow> Inl err
         | (b, None) \<Rightarrow> Inr (Value t (DBool b)))
      else if Kind t = KString then Inr (Value t (DString v))
      else convertByTypes L v t tagOpts)"

subsection \<open>Tags and fields\<close>

definition parseIndex :: "'a lib \<Rightarrow> string \<Rightarrow> int \<times> error option" where
  "parseIndex L opt = Atoi (IntSize L) (drop 6 opt)"

definition parseFormat :: "string \<Rightarrow> string" where
  "parseFormat opt = drop 7 opt"

text \<open>\<open>parseTagOption\<close>: the options after the call, and the error.\<close>

definition parseTagOption :: "'a lib \<Rightarrow> string \<Rightarrow> tagOptions \<Rightarrow> tagOptions \<times> error option" where
  "parseTagOption L opt0 tag =
     (let opt = TrimSpace opt0 in
      if HasPrefix opt ''index:'' then
        (case parseIndex L opt of (i, err) \<Rightarrow> (tag\<lparr>index_opt := i\<rparr>, err))
      else if HasPrefix opt ''format:'' then (tag\<lparr>format := parseFormat opt\<rparr>, None)
      else (tag\<lparr>columnName := opt\<rparr>, None))"

fun readTag_loop :: "'a lib \<Rightarrow> string list \<Rightarrow> tagOptions \<Rightarrow> error + tagOptions option" where
  "readTag_loop L [] t = Inr (Some t)"
| "readTag_loop L (opt # opts) t =
     (case parseTagOption L opt t of
        (t', Some err) \<Rightarrow> Inl err
      | (t', None) \<Rightarrow> readTag_loop L opts t')"

text \<open>\<open>readTag\<close>: an error, or no options (\<open>nil, nil\<close>), or the options.\<close>

definition readTag :: "'a lib \<Rightarrow> string \<Rightarrow> error + tagOptions option" where
  "readTag L tag =
     (let tv = StructTag_Get L tag ''csv'' in
      if tv = [] \<or> tv = ''-'' then Inr None
      else readTag_loop L (Split tv CHR '','')
             \<lparr>columnName = [], index_opt = - 1, format = []\<rparr>)"

text \<open>
  \<open>fieldContext\<close>; \<open>rv\<close> is the field of the target record, a variable: here its data
  before the call, and each function returns its data after the call.
\<close>

record 'a fieldContext =
  structField :: StructField
  rv :: "'a data"
  tagOpts :: tagOptions

text \<open>
  \<open>reflect.Value.Set\<close> on a field reached through a pointer to its struct: it panics on
  an unexported field and on a value whose type is not assignable to the field's type.
  No value built by \<open>convertToType\<close> has an interface type, and the field's type is
  never an unnamed type with the same underlying type, so assignable is identical here.
\<close>

definition Set_field :: "StructField \<Rightarrow> 'a data \<Rightarrow> 'a Value \<Rightarrow> 'a data \<times> outcome" where
  "Set_field sf old x =
     (if PkgPath sf \<noteq> [] then (old, Panicked UnexportedField)
      else if Value_Type x \<noteq> Type sf then (old, Panicked (NotAssignable (Value_Type x) (Type sf)))
      else (Value_data x, Done))"

definition conversion_text :: "string \<Rightarrow> StructField \<Rightarrow> string" where
  "conversion_text v sf =
     ''failed to convert value '' @ v @ '' to type '' @ kind_String (Kind (Type sf))
       @ '' in field '' @ Name sf @ '' ['' @ Tag sf @ '']: ''"

definition setFieldValue :: "'a lib \<Rightarrow> string \<Rightarrow> 'a fieldContext \<Rightarrow> 'a data \<times> outcome" where
  "setFieldValue L v fc =
     (case convertToType L v (structField fc) (tagOpts fc) of
        Inl err \<Rightarrow> (rv fc, Failed (Wrapf (conversion_text v (structField fc)) err))
      | Inr convertedValue \<Rightarrow> Set_field (structField fc) (rv fc) convertedValue)"

definition index_text :: "int \<Rightarrow> StructField \<Rightarrow> string" where
  "index_text i sf =
     ''index '' @ Itoa i @ '' out of range for field '' @ Name sf @ '' ['' @ Tag sf @ '']''"

definition handleFieldByIndex ::
  "'a lib \<Rightarrow> CSVReader \<Rightarrow> int \<Rightarrow> 'a fieldContext \<Rightarrow> 'a data \<times> outcome" where
  "handleFieldByIndex L r i fc =
     (if i \<ge> int (length (columns r)) then (rv fc, Failed (Errorf (index_text i (structField fc))))
      else (case index (columns r) i of
              Inl p \<Rightarrow> (rv fc, Panicked p)
            | Inr v \<Rightarrow> setFieldValue L v fc))"

definition handleFieldByName ::
  "'a lib \<Rightarrow> CSVReader \<Rightarrow> string \<Rightarrow> 'a fieldContext \<Rightarrow> 'a data \<times> outcome" where
  "handleFieldByName L r name fc =
     (case Get r name of
        Err err \<Rightarrow> (rv fc, Failed err)
      | Panic p \<Rightarrow> (rv fc, Panicked p)
      | Ok v \<Rightarrow> setFieldValue L v fc)"

definition handleFieldByTagOptions ::
  "'a lib \<Rightarrow> CSVReader \<Rightarrow> 'a fieldContext \<Rightarrow> 'a data \<times> outcome" where
  "handleFieldByTagOptions L r fc =
     (if columnName (tagOpts fc) \<noteq> [] then handleFieldByName L r (columnName (tagOpts fc)) fc
      else if index_opt (tagOpts fc) \<ge> 0 then handleFieldByIndex L r (index_opt (tagOpts fc)) fc
      else (rv fc, Done))"

definition parseFieldValue ::
  "'a lib \<Rightarrow> CSVReader \<Rightarrow> StructField \<Rightarrow> 'a data \<Rightarrow> 'a data \<times> outcome" where
  "parseFieldValue L r sf d =
     (case readTag L (Tag sf) of
        Inl err \<Rightarrow> (d, Failed err)
      | Inr None \<Rightarrow> (d, Done)
      | Inr (Some t) \<Rightarrow>
          handleFieldByTagOptions L r \<lparr>structField = sf, rv = d, tagOpts = t\<rparr>)"

text \<open>
  A struct value: its fields in the order of declaration, each with its data.
  \<open>parseFields\<close> yields the struct after the call and what the call did.
\<close>

type_synonym 'a struct = "(StructField \<times> 'a data) list"

fun parseFields :: "'a lib \<Rightarrow> CSVReader \<Rightarrow> 'a struct \<Rightarrow> 'a struct \<times> outcome" where
  "parseFields L r [] = ([], Done)"
| "parseFields L r ((sf, d) # rest) =
     (case parseFieldValue L r sf d of
        (d', Done) \<Rightarrow> (case parseFields L r rest of (rest', out) \<Rightarrow> ((sf, d') # rest', out))
      | (d', out) \<Rightarrow> ((sf, d') # rest, out))"

subsection \<open>UnmarshalLine\<close>

text \<open>
  The argument \<open>v interface{}\<close>: the nil interface, a value that is no pointer (of the
  given kind), or a pointer, nil or to a variable that holds a struct or something of
  another kind.
\<close>

datatype 'a pointee = NonStruct kind | StructV "'a struct"

datatype 'a argument = NilInterface | NonPointer kind | Pointer "'a pointee option"

fun argument_Kind :: "'a argument \<Rightarrow> kind" where
  "argument_Kind NilInterface = KInvalid"
| "argument_Kind (NonPointer k) = k"
| "argument_Kind (Pointer p) = KPtr"

fun IsNil :: "'a argument \<Rightarrow> bool" where
  "IsNil (Pointer None) = True"
| "IsNil v = False"

text \<open>\<open>Value.Elem\<close>, which gives the zero \<open>Value\<close>, of kind \<open>Invalid\<close>, on a nil pointer.\<close>

fun argument_Elem :: "'a argument \<Rightarrow> 'a pointee" where
  "argument_Elem (Pointer (Some p)) = p"
| "argument_Elem v = NonStruct KInvalid"

fun pointee_Kind :: "'a pointee \<Rightarrow> kind" where
  "pointee_Kind (NonStruct k) = k"
| "pointee_Kind (StructV fs) = KStruct"

fun pointee_fields :: "'a pointee \<Rightarrow> 'a struct" where
  "pointee_fields (StructV fs) = fs"
| "pointee_fields (NonStruct k) = []"

text \<open>\<open>UnmarshalLine\<close>: the reader and the argument after the call, and what the call did.\<close>

definition UnmarshalLine ::
  "'a lib \<Rightarrow> CSVReader \<Rightarrow> 'a argument \<Rightarrow> CSVReader \<times> 'a argument \<times> outcome" where
  "UnmarshalLine L r v =
     (if argument_Kind v \<noteq> KPtr \<or> IsNil v
        then (r, v, Failed (ErrorString ''v must be a non-nil pointer to a struct''))
      else
        (let e = argument_Elem v in
         if pointee_Kind e \<noteq> KStruct
           then (r, v, Failed (ErrorString ''v must be a pointer to a struct''))
         else (case parseFields L r (pointee_fields e) of
                 (fs', out) \<Rightarrow> (r, Pointer (Some (StructV fs')), out))))"

subsection \<open>Example inputs\<close>

text \<open>
  A library for the examples: tags hold the one key \<open>csv\<close>, no text is a float, a
  complex number or a time, and the user's decoder accepts every text but \<open>bad\<close>.
\<close>

definition example_lib :: "string lib" where
  "example_lib =
     \<lparr>IntSize = 64,
      StructTag_Get = (\<lambda>tag key.
         if HasPrefix tag (key @ [CHR '':'', CHR 0x22])
           then takeWhile (\<lambda>c. c \<noteq> CHR 0x22) (drop (length key + 2) tag)
         else []),
      ParseFloat = (\<lambda>s b. Inl (NumError ''ParseFloat'' s ErrSyntax)),
      ParseComplex = (\<lambda>s b. Inl (NumError ''ParseComplex'' s ErrSyntax)),
      time_Parse_layout = (\<lambda>layout v. Inl (ParseError layout v layout v)),
      time_Date = (\<lambda>y m d h mi s ns. ''0000-01-01 00:00:00 +0000 UTC''),
      UnmarshalText = (\<lambda>t s. if s = ''bad'' then Inl (Foreign ''bad text'') else Inr s)\<rparr>"

definition empty_reader :: CSVReader where
  "empty_reader = \<lparr>columnIndex = Map.empty, columns = [], reader = [], headerAtLine = 0\<rparr>"

text \<open>A header of four columns, then a row of two values read by \<open>Next\<close>.\<close>

definition short_row_reader :: CSVReader where
  "short_row_reader =
     fst (Next (SetHeader (empty_reader\<lparr>reader := [([''x'', ''y''], None)]\<rparr>)
                  [''a'', ''b'', ''c'', ''d'']))"

text \<open>A header of two columns, then a row of three values read by \<open>Next\<close>.\<close>

definition long_row_reader :: CSVReader where
  "long_row_reader =
     fst (Next (SetHeader (empty_reader\<lparr>reader := [([''x'', ''y'', ''z''], None)]\<rparr>)
                  [''a'', ''b'']))"

definition string_type :: go_type where
  "string_type = Named ''string'' KString False"

definition int_type :: go_type where
  "int_type = Named ''int'' KInt False"

definition bool_type :: go_type where
  "bool_type = Named ''bool'' KBool False"

text \<open>\<open>net.IP\<close> is a slice of bytes whose pointer has \<open>UnmarshalText\<close>.\<close>

definition net_IP :: go_type where
  "net_IP = Named ''net.IP'' KSlice True"

definition decimal_Decimal :: go_type where
  "decimal_Decimal = Named ''decimal.Decimal'' KStruct True"

definition exported_field :: "string \<Rightarrow> go_type \<Rightarrow> string \<Rightarrow> StructField" where
  "exported_field n t tag = \<lparr>Name = n, PkgPath = [], Type = t, Tag = tag\<rparr>"

text \<open>A record of two fields: the first bound to column \<open>a\<close>, the second disabled.\<close>

definition skipping_struct :: "string struct" where
  "skipping_struct =
     [(exported_field ''A'' string_type (''csv:'' @ [CHR 0x22] @ ''a'' @ [CHR 0x22]), DString ''old''),
      (exported_field ''B'' int_type (''csv:'' @ [CHR 0x22] @ ''-'' @ [CHR 0x22]), DInt 7)]"

text \<open>
  The first line is read as the header \<open>a,b,c\<close>, then \<open>Next\<close> reads the row
  \<open>hello,notanint,true\<close>; and a record of three fields bound to the three columns.
\<close>

definition three_column_reader :: CSVReader where
  "three_column_reader =
     fst (Next (ReadHeader (fst (Next (empty_reader
       \<lparr>reader := [([''a'', ''b'', ''c''], None), ([''hello'', ''notanint'', ''true''], None)]\<rparr>)))))"

definition three_field_struct :: "string struct" where
  \<open>three_field_struct =
     [(exported_field ''A'' string_type ''csv:"a"'', DString []),
      (exported_field ''B'' int_type ''csv:"b"'', DInt 0),
      (exported_field ''C'' bool_type ''csv:"c"'', DBool False)]\<close>

text \<open>The options before any token of a tag is applied.\<close>

definition unset_options :: tagOptions where
  "unset_options = \<lparr>columnName = [], index_opt = - 1, format = []\<rparr>"

section \<open>Properties\<close>

subsection \<open>Reading a column by position\<close>

text \<open>
  C9. \<open>GetByColumnIndex\<close> tests its index against the length of the current row from
  above only. Every negative index passes the test and reaches the indexing of the
  slice, where the runtime's bounds check panics: the function returns no value there.
\<close>

theorem GetByColumnIndex_negative:
  "ci < 0 \<Longrightarrow> GetByColumnIndex r ci = Panic (IndexOutOfRange ci (length (columns r)))"
  by (simp add: GetByColumnIndex_def index_def)

theorem GetByColumnIndex_negative_witness:
  "(- 1 :: int) < 0 \<and> GetByColumnIndex short_row_reader (- 1) = Panic (IndexOutOfRange (- 1) 2)"
  using GetByColumnIndex_negative [of "- 1" short_row_reader]
  by (simp add: short_row_reader_def Next_def SetHeader_def empty_reader_def)


subsection \<open>The example readers\<close>

lemma short_row_columns: "columns short_row_reader = [''x'', ''y'']"
  by (simp add: short_row_reader_def Next_def SetHeader_def empty_reader_def)

lemma short_row_columnIndex:
  "columnIndex short_row_reader = [''a'' \<mapsto> 0, ''b'' \<mapsto> 1, ''c'' \<mapsto> 2, ''d'' \<mapsto> 3]"
  by (simp add: short_row_reader_def Next_def SetHeader_def empty_reader_def enumerate_eq_zip)

lemma long_row_columns: "columns long_row_reader = [''x'', ''y'', ''z'']"
  by (simp add: long_row_reader_def Next_def SetHeader_def empty_reader_def)

lemma long_row_columnIndex: "columnIndex long_row_reader = [''a'' \<mapsto> 0, ''b'' \<mapsto> 1]"
  by (simp add: long_row_reader_def Next_def SetHeader_def empty_reader_def enumerate_eq_zip)

lemmas tag_simps =
  readTag_def example_lib_def HasPrefix_def parseTagOption_def TrimSpace_def
  TrimLeftSpace_def TrimRightSpace_def unicode_spaces_def parseIndex_def parseFormat_def
  Atoi_def ParseInt_def ParseUint_def cutoff64_def

subsection \<open>Binding by position\<close>

lemma setFieldValue_not_Errorf: "snd (setFieldValue L v fc) \<noteq> Failed (Errorf m)"
  by (simp add: setFieldValue_def Set_field_def split: sum.splits)

text \<open>
  C1, as the code has it. A field bound by position (no column name, an index that is
  not negative) fails with the index error exactly when the index is at or past the
  length of \<open>r.columns\<close>, which holds the current row once \<open>Next\<close> has read one (the
  header only before that). Below that length the located value is the row's value at
  the index; the empty string is never put in its place. The width of the header plays
  no part.
\<close>

theorem bind_by_index:
  assumes "columnName (tagOpts fc) = []" and "0 \<le> index_opt (tagOpts fc)"
  shows "(index_opt (tagOpts fc) \<ge> int (length (columns r)) \<longrightarrow>
            handleFieldByTagOptions L r fc
              = (rv fc, Failed (Errorf (index_text (index_opt (tagOpts fc)) (structField fc)))))
       \<and> (index_opt (tagOpts fc) < int (length (columns r)) \<longrightarrow>
            handleFieldByTagOptions L r fc
              = setFieldValue L (columns r ! nat (index_opt (tagOpts fc))) fc)
       \<and> ((\<exists>m. snd (handleFieldByTagOptions L r fc) = Failed (Errorf m))
            \<longleftrightarrow> index_opt (tagOpts fc) \<ge> int (length (columns r)))"
  using assms setFieldValue_not_Errorf [of L _ fc]
  by (auto simp: handleFieldByTagOptions_def handleFieldByIndex_def index_def)

theorem bind_by_index_witness:
  "handleFieldByTagOptions example_lib short_row_reader
     \<lparr>structField = exported_field ''F'' string_type [], rv = DString ''old'',
      tagOpts = \<lparr>columnName = [], index_opt = 1, format = []\<rparr>\<rparr>
     = (DString ''y'', Done)
   \<and> handleFieldByTagOptions example_lib short_row_reader
     \<lparr>structField = exported_field ''F'' string_type [], rv = DString ''old'',
      tagOpts = \<lparr>columnName = [], index_opt = 2, format = []\<rparr>\<rparr>
     = (DString ''old'', Failed (Errorf ''index 2 out of range for field F []''))"
  using bind_by_index [of "\<lparr>structField = exported_field ''F'' string_type [], rv = DString ''old'',
      tagOpts = \<lparr>columnName = [], index_opt = 1, format = []\<rparr>\<rparr>" short_row_reader example_lib]
    bind_by_index [of "\<lparr>structField = exported_field ''F'' string_type [], rv = DString ''old'',
      tagOpts = \<lparr>columnName = [], index_opt = 2, format = []\<rparr>\<rparr>" short_row_reader example_lib]
  by (simp add: short_row_columns setFieldValue_def convertToType_def string_type_def
      Set_field_def exported_field_def index_text_def Itoa_def)

text \<open>
  C1 as the specification states it fails in both directions. With a header of four
  columns and a current row of two values, \<open>index:3\<close> lies within the header, yet the bind
  fails with the index error and locates no empty string. With a header of two columns and
  a row of three values, \<open>index:2\<close> lies past the header, yet the bind succeeds with the
  row's third value.
\<close>

theorem bind_by_index_counterexample:
  \<open>columnIndex short_row_reader = [''a'' \<mapsto> 0, ''b'' \<mapsto> 1, ''c'' \<mapsto> 2, ''d'' \<mapsto> 3]
   \<and> columns short_row_reader = [''x'', ''y'']
   \<and> readTag example_lib ''csv:"index:3"''
        = Inr (Some \<lparr>columnName = [], index_opt = 3, format = []\<rparr>)
   \<and> parseFieldValue example_lib short_row_reader
        (exported_field ''F'' string_type ''csv:"index:3"'') (DString ''old'')
      = (DString ''old'', Failed (Errorf ''index 3 out of range for field F [csv:"index:3"]''))
   \<and> columnIndex long_row_reader = [''a'' \<mapsto> 0, ''b'' \<mapsto> 1]
   \<and> columns long_row_reader = [''x'', ''y'', ''z'']
   \<and> parseFieldValue example_lib long_row_reader
        (exported_field ''F'' string_type ''csv:"index:2"'') (DString ''old'')
      = (DString ''z'', Done)\<close>
proof -
  have t3: \<open>readTag example_lib ''csv:"index:3"''
      = Inr (Some \<lparr>columnName = [], index_opt = 3, format = []\<rparr>)\<close>
    by (simp add: tag_simps)
  have t2: \<open>readTag example_lib ''csv:"index:2"''
      = Inr (Some \<lparr>columnName = [], index_opt = 2, format = []\<rparr>)\<close>
    by (simp add: tag_simps)
  have p3: \<open>parseFieldValue example_lib short_row_reader
        (exported_field ''F'' string_type ''csv:"index:3"'') (DString ''old'')
      = (DString ''old'', Failed (Errorf ''index 3 out of range for field F [csv:"index:3"]''))\<close>
    by (simp add: parseFieldValue_def exported_field_def t3 handleFieldByTagOptions_def
        handleFieldByIndex_def short_row_columns index_text_def Itoa_def)
  have p2: \<open>parseFieldValue example_lib long_row_reader
        (exported_field ''F'' string_type ''csv:"index:2"'') (DString ''old'')
      = (DString ''z'', Done)\<close>
    by (simp add: parseFieldValue_def exported_field_def t2 handleFieldByTagOptions_def
        handleFieldByIndex_def long_row_columns index_def setFieldValue_def convertToType_def
        string_type_def Set_field_def)
  show ?thesis
    using t3 p3 p2 short_row_columns short_row_columnIndex long_row_columns long_row_columnIndex
    by simp
qed

subsection \<open>Binding by name\<close>

text \<open>
  C4. A name that is no key of the header's map makes \<open>Get\<close>, and the bind of the field,
  fail with the error \<open>invalid column "name"\<close>, which holds the name. A name that is a
  key whose position is at or past the length of the current row makes \<open>Get\<close> return the
  empty string and no error, and the bind goes on to convert the empty string.
\<close>

theorem bind_by_name:
  "(columnIndex r name = None \<longrightarrow>
      Get r name = Err (Errorf (''invalid column \"'' @ name @ ''\"''))
      \<and> sublist name (''invalid column \"'' @ name @ ''\"'')
      \<and> handleFieldByName L r name fc
          = (rv fc, Failed (Errorf (''invalid column \"'' @ name @ ''\"''))))
   \<and> (\<forall>i. columnIndex r name = Some i \<and> i \<ge> int (length (columns r)) \<longrightarrow>
      Get r name = Ok [] \<and> handleFieldByName L r name fc = setFieldValue L [] fc)"
proof -
  have "sublist name (''invalid column \"'' @ name @ ''\"'')"
    by (rule sublist_appendI)
  moreover have "columnIndex r name = None \<Longrightarrow>
      Get r name = Err (Errorf (''invalid column \"'' @ name @ ''\"''))"
    by (simp add: Get_def)
  moreover have "columnIndex r name = None \<Longrightarrow>
      handleFieldByName L r name fc
          = (rv fc, Failed (Errorf (''invalid column \"'' @ name @ ''\"'')))"
    by (simp add: Get_def handleFieldByName_def)
  moreover have "\<And>i. columnIndex r name = Some i \<Longrightarrow> i \<ge> int (length (columns r)) \<Longrightarrow>
      Get r name = Ok [] \<and> handleFieldByName L r name fc = setFieldValue L [] fc"
    by (simp add: Get_def handleFieldByName_def)
  ultimately show ?thesis by blast
qed

theorem bind_by_name_witness:
  \<open>columnIndex short_row_reader ''e'' = None
   \<and> Get short_row_reader ''e'' = Err (Errorf ''invalid column "e"'')
   \<and> columnIndex short_row_reader ''d'' = Some 3
   \<and> (3::int) \<ge> int (length (columns short_row_reader))
   \<and> Get short_row_reader ''d'' = Ok []
   \<and> handleFieldByName example_lib short_row_reader ''d''
        \<lparr>structField = exported_field ''F'' string_type ''csv:"d"'',
         rv = DString ''old'', tagOpts = \<lparr>columnName = ''d'', index_opt = - 1, format = []\<rparr>\<rparr>
      = (DString [], Done)\<close>
proof -
  have s: \<open>setFieldValue example_lib []
        \<lparr>structField = exported_field ''F'' string_type ''csv:"d"'',
         rv = DString ''old'', tagOpts = \<lparr>columnName = ''d'', index_opt = - 1, format = []\<rparr>\<rparr>
      = (DString [], Done)\<close>
    by (simp add: setFieldValue_def convertToType_def string_type_def Set_field_def
        exported_field_def)
  show ?thesis
    using bind_by_name [of short_row_reader "''e''" example_lib
        "\<lparr>structField = exported_field ''F'' string_type ''csv:\"d\"'',
         rv = DString ''old'', tagOpts = \<lparr>columnName = ''d'', index_opt = - 1, format = []\<rparr>\<rparr>"]
      bind_by_name [of short_row_reader "''d''" example_lib
        "\<lparr>structField = exported_field ''F'' string_type ''csv:\"d\"'',
         rv = DString ''old'', tagOpts = \<lparr>columnName = ''d'', index_opt = - 1, format = []\<rparr>\<rparr>"]
    by (simp add: short_row_columnIndex short_row_columns s)
qed

subsection \<open>Fields without a binding\<close>

lemma parseFieldValue_skip:
  "StructTag_Get L (Tag sf) ''csv'' = [] \<or> StructTag_Get L (Tag sf) ''csv'' = ''-'' \<Longrightarrow>
   parseFieldValue L r sf d = (d, Done)"
  by (auto simp: parseFieldValue_def readTag_def)

lemma parseFields_length: "length (fst (parseFields L r fs)) = length fs"
  by (induction fs) (auto split: prod.splits outcome.splits)

lemma parseFields_skip:
  "i < length fs \<Longrightarrow>
   StructTag_Get L (Tag (fst (fs ! i))) ''csv'' = []
     \<or> StructTag_Get L (Tag (fst (fs ! i))) ''csv'' = ''-'' \<Longrightarrow>
   fst (parseFields L r fs) ! i = fs ! i"
proof (induction fs arbitrary: i)
  case Nil
  then show ?case by simp
next
  case (Cons f fs)
  obtain sf d where f: "f = (sf, d)" by (cases f)
  show ?case
  proof (cases i)
    case 0
    with Cons.prems f have "parseFieldValue L r sf d = (d, Done)"
      by (simp add: parseFieldValue_skip)
    with 0 f show ?thesis by (simp split: prod.splits)
  next
    case (Suc j)
    with Cons.prems have "fst (parseFields L r fs) ! j = fs ! j"
      by (intro Cons.IH) simp_all
    with Suc f show ?thesis
      by (auto split: prod.splits outcome.splits)
  qed
qed

text \<open>
  C6. A field whose \<open>csv\<close> tag is absent or empty (\<open>Get\<close> yields the empty string for
  both) or is \<open>-\<close> is skipped: binding it alone returns at once with no error and the
  field as it was, whatever the reader holds; and binding a whole record, whether it
  succeeds, fails or panics at another field, leaves that field as it was.
\<close>

theorem skipped_field_unchanged:
  assumes "i < length fs"
    and "StructTag_Get L (Tag (fst (fs ! i))) ''csv'' = []
           \<or> StructTag_Get L (Tag (fst (fs ! i))) ''csv'' = ''-''"
  shows "parseFieldValue L r (fst (fs ! i)) d = (d, Done)
       \<and> length (fst (parseFields L r fs)) = length fs
       \<and> fst (parseFields L r fs) ! i = fs ! i
       \<and> (\<exists>fs' out. UnmarshalLine L r (Pointer (Some (StructV fs)))
                         = (r, Pointer (Some (StructV fs')), out)
                     \<and> fs' ! i = fs ! i)"
proof -
  have "UnmarshalLine L r (Pointer (Some (StructV fs)))
          = (r, Pointer (Some (StructV (fst (parseFields L r fs)))), snd (parseFields L r fs))"
    by (simp add: UnmarshalLine_def split: prod.splits)
  with assms show ?thesis
    by (simp add: parseFieldValue_skip parseFields_length parseFields_skip)
qed

theorem skipped_field_unchanged_witness:
  "parseFields example_lib short_row_reader skipping_struct
     = ([(fst (skipping_struct ! 0), DString ''x''), skipping_struct ! 1], Done)
   \<and> snd (skipping_struct ! 1) = DInt 7
   \<and> fst (parseFields example_lib short_row_reader skipping_struct) ! 1 = skipping_struct ! 1
   \<and> parseFieldValue example_lib short_row_reader (fst (skipping_struct ! 1)) (DInt 7)
       = (DInt 7, Done)"
proof -
  have len: "1 < length skipping_struct"
    by (simp add: skipping_struct_def)
  have tag: "StructTag_Get example_lib (Tag (fst (skipping_struct ! 1))) ''csv'' = ''-''"
    by (simp add: skipping_struct_def exported_field_def example_lib_def HasPrefix_def)
  have run: "parseFields example_lib short_row_reader skipping_struct
     = ([(fst (skipping_struct ! 0), DString ''x''), skipping_struct ! 1], Done)"
    by (simp add: skipping_struct_def exported_field_def parseFieldValue_def tag_simps
        handleFieldByTagOptions_def handleFieldByName_def Get_def short_row_columnIndex
        short_row_columns index_def setFieldValue_def convertToType_def string_type_def
        Set_field_def)
  have seven: "snd (skipping_struct ! 1) = DInt 7"
    by (simp add: skipping_struct_def)
  from skipped_field_unchanged [OF len, of example_lib short_row_reader "DInt 7"] tag run seven
  show ?thesis
    by simp
qed

subsection \<open>The argument of UnmarshalLine\<close>

text \<open>
  C8. When the argument is the nil interface, or no pointer, or a nil pointer, or a
  pointer to something that is no struct, \<open>UnmarshalLine\<close> returns an error, and the
  reader and the argument are after the call what they were before it: no field is
  written and no row is read.
\<close>

theorem UnmarshalLine_rejects:
  "argument_Kind v \<noteq> KPtr \<or> IsNil v \<or> pointee_Kind (argument_Elem v) \<noteq> KStruct \<Longrightarrow>
   UnmarshalLine L r v =
     (r, v, Failed (ErrorString (if argument_Kind v \<noteq> KPtr \<or> IsNil v
                                 then ''v must be a non-nil pointer to a struct''
                                 else ''v must be a pointer to a struct'')))"
  by (auto simp: UnmarshalLine_def Let_def)

theorem UnmarshalLine_rejects_witness:
  "UnmarshalLine example_lib short_row_reader NilInterface
     = (short_row_reader, NilInterface,
        Failed (ErrorString ''v must be a non-nil pointer to a struct''))
   \<and> UnmarshalLine example_lib short_row_reader (NonPointer KStruct)
     = (short_row_reader, NonPointer KStruct,
        Failed (ErrorString ''v must be a non-nil pointer to a struct''))
   \<and> UnmarshalLine example_lib short_row_reader (Pointer None)
     = (short_row_reader, Pointer None,
        Failed (ErrorString ''v must be a non-nil pointer to a struct''))
   \<and> UnmarshalLine example_lib short_row_reader (Pointer (Some (NonStruct KInt)))
     = (short_row_reader, Pointer (Some (NonStruct KInt)),
        Failed (ErrorString ''v must be a pointer to a struct''))"
  using UnmarshalLine_rejects [of NilInterface example_lib short_row_reader]
    UnmarshalLine_rejects [of "NonPointer KStruct" example_lib short_row_reader]
    UnmarshalLine_rejects [of "Pointer None" example_lib short_row_reader]
    UnmarshalLine_rejects [of "Pointer (Some (NonStruct KInt))" example_lib short_row_reader]
  by simp

subsection \<open>The header\<close>

lemma fold_header_other:
  "name \<notin> set cols \<Longrightarrow>
   fold (\<lambda>(i, name) m. m(name \<mapsto> int i)) (enumerate k cols) m0 name = m0 name"
  by (induction cols arbitrary: k m0) auto

lemma fold_header_nth:
  "distinct cols \<Longrightarrow> i < length cols \<Longrightarrow>
   fold (\<lambda>(i, name) m. m(name \<mapsto> int i)) (enumerate k cols) m0 (cols ! i) = Some (int (k + i))"
proof (induction cols arbitrary: k m0 i)
  case Nil
  then show ?case by simp
next
  case (Cons c cols)
  show ?case
  proof (cases i)
    case 0
    have "fold (\<lambda>(i, name) m. m(name \<mapsto> int i)) (enumerate (Suc k) cols) (m0(c \<mapsto> int k)) c
            = (m0(c \<mapsto> int k)) c"
      using Cons.prems by (intro fold_header_other) simp
    also have "\<dots> = Some (int k)" by simp
    finally show ?thesis using 0 by (simp del: fun_upd_apply)
  next
    case (Suc j)
    with Cons.prems Cons.IH [of j "Suc k" "m0(c \<mapsto> int k)"] show ?thesis by simp
  qed
qed

lemma SetHeader_position:
  "distinct cols \<Longrightarrow> i < length cols \<Longrightarrow> columnIndex (SetHeader r cols) (cols ! i) = Some (int i)"
  using fold_header_nth [of cols i 0 Map.empty] by (simp add: SetHeader_def)

lemma SetHeader_dom: "distinct cols \<Longrightarrow> dom (columnIndex (SetHeader r cols)) = set cols"
proof (intro set_eqI iffI)
  fix x assume "x \<in> dom (columnIndex (SetHeader r cols))"
  then have "columnIndex (SetHeader r cols) x \<noteq> None" by auto
  then show "x \<in> set cols"
    using fold_header_other [of x cols 0 Map.empty] by (cases "x \<in> set cols") (simp_all add: SetHeader_def)
next
  fix x assume d: "distinct cols" and "x \<in> set cols"
  then obtain i where "i < length cols" "cols ! i = x" by (auto simp: in_set_conv_nth)
  with d SetHeader_position [of cols i r] show "x \<in> dom (columnIndex (SetHeader r cols))"
    by auto
qed

lemma filter_eq_distinct: "distinct xs \<Longrightarrow> k \<in> set xs \<Longrightarrow> filter (\<lambda>x. k = x) xs = [k]"
  by (induction xs) (auto simp: filter_empty_conv)

text \<open>
  C10. After \<open>SetHeader\<close> with a list of pairwise different names, \<open>Header\<close> returns
  that list, in that order, in whatever order the runtime iterates over the map: the
  keys are the names, each at its own position, and the stable sort puts them back.
\<close>

theorem SetHeader_then_Header:
  assumes "distinct cols" and "distinct keys"
    and "set keys = dom (columnIndex (SetHeader r cols))"
  shows "Header (SetHeader r cols) keys = cols"
proof -
  let ?pos = "\<lambda>k. case columnIndex (SetHeader r cols) k of None \<Rightarrow> 0 | Some i \<Rightarrow> i"
  have pos: "?pos (cols ! i) = int i" if "i < length cols" for i
    using that assms(1) by (simp add: SetHeader_position)
  have same: "set keys = set cols"
    using assms by (simp add: SetHeader_dom)
  have positions: "map ?pos cols = map int [0..<length cols]"
    by (rule nth_equalityI) (simp_all add: pos)
  have "sorted (map int [0..<n])" for n
    by (induction n) (auto simp: sorted_append)
  with positions have sorted: "sorted (map ?pos cols)" by simp
  have "distinct (map int [0..<length cols])"
    by (simp add: distinct_map inj_on_def)
  with positions have "distinct (map ?pos cols)" by simp
  then have inj: "inj_on ?pos (set cols)"
    by (simp add: distinct_map)
  have "sort_key ?pos keys = cols"
  proof (rule properties_for_sort_key)
    show "mset cols = mset keys"
      using assms(1,2) same by (simp add: set_eq_iff_mset_eq_distinct [symmetric])
    show "sorted (map ?pos cols)" by (rule sorted)
    fix k assume k: "k \<in> set cols"
    have eq: "filter (\<lambda>x. ?pos k = ?pos x) xs = filter (\<lambda>x. k = x) xs" if "set xs \<subseteq> set cols" for xs
      using that k inj by (intro filter_cong) (auto dest: inj_onD)
    have "filter (\<lambda>x. ?pos k = ?pos x) cols = [k]"
      using eq [of cols] assms(1) k by (simp add: filter_eq_distinct)
    moreover have "filter (\<lambda>x. ?pos k = ?pos x) keys = [k]"
      using eq [of keys] assms(2) k same by (simp add: filter_eq_distinct)
    ultimately show "filter (\<lambda>x. ?pos k = ?pos x) cols = filter (\<lambda>x. ?pos k = ?pos x) keys"
      by simp
  qed
  then show ?thesis by (simp add: Header_def)
qed

theorem SetHeader_then_Header_witness:
  "distinct [''name'', ''age'', ''city''] \<and> distinct [''city'', ''name'', ''age'']
   \<and> set [''city'', ''name'', ''age'']
       = dom (columnIndex (SetHeader empty_reader [''name'', ''age'', ''city'']))
   \<and> Header (SetHeader empty_reader [''name'', ''age'', ''city'']) [''city'', ''name'', ''age'']
       = [''name'', ''age'', ''city'']"
proof -
  have d1: "distinct [''name'', ''age'', ''city'']" by simp
  have d2: "distinct [''city'', ''name'', ''age'']" by simp
  have s: "set [''city'', ''name'', ''age'']
       = dom (columnIndex (SetHeader empty_reader [''name'', ''age'', ''city'']))"
    by (auto simp: SetHeader_def enumerate_eq_zip)
  from SetHeader_then_Header [OF d1 d2 s] d1 d2 s show ?thesis by blast
qed

subsection \<open>Times without a format\<close>

text \<open>
  C2, as the code has it. For a field of type \<open>time.Time\<close> whose tag gives no format,
  every raw value that is not empty fails to convert, with the parser's error, which
  \<open>setFieldValue\<close> wraps; the empty raw value converts, to year 0, January 1, 00:00 UTC.
\<close>

theorem time_without_format:
  assumes "Type sf = time_Time" and "format opts = []"
  shows "(v \<noteq> [] \<longrightarrow>
            convertToType L v sf opts = Inl (ParseError [] v [] v)
          \<and> setFieldValue L v \<lparr>structField = sf, rv = d, tagOpts = opts\<rparr>
              = (d, Failed (Wrapf (conversion_text v sf) (ParseError [] v [] v))))
       \<and> (v = [] \<longrightarrow>
            convertToType L v sf opts = Inr (Value time_Time (DTime (time_Date L 0 1 1 0 0 0 0))))"
  using assms
  by (simp add: setFieldValue_def convertToType_def convertByTypes_def time_Parse_def time_Time_def)

theorem time_without_format_witness:
  \<open>convertToType example_lib ''2023-12-04'' (exported_field ''T'' time_Time ''csv:"d"'')
      \<lparr>columnName = ''d'', index_opt = - 1, format = []\<rparr>
     = Inl (ParseError [] ''2023-12-04'' [] ''2023-12-04'')\<close>
  using time_without_format [of "exported_field ''T'' time_Time ''csv:\"d\"''"
      "\<lparr>columnName = ''d'', index_opt = - 1, format = []\<rparr>" "''2023-12-04''" example_lib DZero]
  by (simp add: exported_field_def)

text \<open>
  C2 as the specification states it fails at the empty raw value: a \<open>time.Time\<close> field
  with no format, bound to a column that lies past the end of the current row, is located
  as the empty string, converted without error and written.
\<close>

theorem time_without_format_counterexample:
  \<open>readTag example_lib ''csv:"d"'' = Inr (Some \<lparr>columnName = ''d'', index_opt = - 1, format = []\<rparr>)
   \<and> Get short_row_reader ''d'' = Ok []
   \<and> convertToType example_lib [] (exported_field ''T'' time_Time ''csv:"d"'')
        \<lparr>columnName = ''d'', index_opt = - 1, format = []\<rparr>
      = Inr (Value time_Time (DTime ''0000-01-01 00:00:00 +0000 UTC''))
   \<and> parseFieldValue example_lib short_row_reader
        (exported_field ''T'' time_Time ''csv:"d"'') DZero
      = (DTime ''0000-01-01 00:00:00 +0000 UTC'', Done)\<close>
proof -
  have t: \<open>readTag example_lib ''csv:"d"''
      = Inr (Some \<lparr>columnName = ''d'', index_opt = - 1, format = []\<rparr>)\<close>
    by (simp add: tag_simps)
  have g: "Get short_row_reader ''d'' = Ok []"
    by (simp add: Get_def short_row_columnIndex short_row_columns)
  have c: \<open>convertToType example_lib [] (exported_field ''T'' time_Time ''csv:"d"'')
        \<lparr>columnName = ''d'', index_opt = - 1, format = []\<rparr>
      = Inr (Value time_Time (DTime ''0000-01-01 00:00:00 +0000 UTC''))\<close>
    by (simp add: convertToType_def convertByTypes_def time_Parse_def time_Time_def
        exported_field_def example_lib_def)
  have p: \<open>parseFieldValue example_lib short_row_reader
        (exported_field ''T'' time_Time ''csv:"d"'') DZero
      = (DTime ''0000-01-01 00:00:00 +0000 UTC'', Done)\<close>
    using c by (simp add: parseFieldValue_def t handleFieldByTagOptions_def handleFieldByName_def g
        setFieldValue_def Set_field_def exported_field_def)
  from t g c p show ?thesis by simp
qed

subsection \<open>Types that decode themselves from text\<close>

lemma text_decodable_conversion:
  assumes "PtrTo_Implements_TextUnmarshaler target"
    and "(t = PtrTo target) \<or> (t = target \<and> Kind t \<noteq> KPtr)"
  shows "convertTextUnmarshalerType L v t = handleUnmarshalerConversion L v t target"
    and "Kind t = KStruct \<Longrightarrow> handleUnmarshalerConversion L [] t target = Inr (Zero t)"
    and "Kind t = KPtr \<Longrightarrow> handleUnmarshalerConversion L [] t target = Inr (Value t DNil)"
    and "v \<noteq> [] \<Longrightarrow> UnmarshalText L target (TrimSpace v) = Inl e \<Longrightarrow>
           handleUnmarshalerConversion L v t target = Inl e"
    and "v \<noteq> [] \<Longrightarrow> UnmarshalText L target (TrimSpace v) = Inr x \<Longrightarrow>
           handleUnmarshalerConversion L v t target
             = Inr (Value t (if Kind t = KPtr then DPtr (DText x) else DText x))"
  using assms
  by (auto simp: handleUnmarshalerConversion_def handleEmptyValue_def Zero_def
      determineTargetType_def convertTextUnmarshalerType_def)

text \<open>
  C5 fails on the code for a field that is no pointer and whose type is no struct.
  \<open>net.IP\<close> is a slice and matches no primitive kind, and its pointer has
  \<open>UnmarshalText\<close>; for the empty raw value \<open>handleEmptyValue\<close> tests for kind
  \<open>Struct\<close> only and so yields the nil \<open>*net.IP\<close>, not the zero \<open>net.IP\<close>, and
  writing it into the field panics.
\<close>

theorem text_decodable_empty_value_of_slice_type:
  \<open>Kind net_IP \<notin> set [KInt, KInt8, KInt16, KInt32, KInt64, KUint, KUint8, KUint16, KUint32,
                       KUint64, KFloat32, KFloat64, KComplex64, KComplex128, KBool, KString]
   \<and> Kind net_IP \<noteq> KPtr \<and> PtrTo_Implements_TextUnmarshaler net_IP
   \<and> convertToType example_lib [] (exported_field ''Addr'' net_IP ''csv:"d"'')
        \<lparr>columnName = ''d'', index_opt = - 1, format = []\<rparr>
      = Inr (Value (PtrTo net_IP) DNil)
   \<and> Zero net_IP = (Value net_IP DZero :: string Value)
   \<and> parseFieldValue example_lib short_row_reader
        (exported_field ''Addr'' net_IP ''csv:"d"'') DZero
      = (DZero, Panicked (NotAssignable (PtrTo net_IP) net_IP))\<close>
proof -
  have t: \<open>readTag example_lib ''csv:"d"''
      = Inr (Some \<lparr>columnName = ''d'', index_opt = - 1, format = []\<rparr>)\<close>
    by (simp add: tag_simps)
  have g: "Get short_row_reader ''d'' = Ok []"
    by (simp add: Get_def short_row_columnIndex short_row_columns)
  have c: \<open>convertToType example_lib [] (exported_field ''Addr'' net_IP ''csv:"d"'')
        \<lparr>columnName = ''d'', index_opt = - 1, format = []\<rparr>
      = Inr (Value (PtrTo net_IP) DNil)\<close>
    by (simp add: convertToType_def convertByTypes_def time_Time_def exported_field_def
        net_IP_def convertTextUnmarshalerType_def determineTargetType_def
        handleUnmarshalerConversion_def handleEmptyValue_def Zero_def)
  have p: \<open>parseFieldValue example_lib short_row_reader
        (exported_field ''Addr'' net_IP ''csv:"d"'') DZero
      = (DZero, Panicked (NotAssignable (PtrTo net_IP) net_IP))\<close>
    using c by (simp add: parseFieldValue_def t handleFieldByTagOptions_def handleFieldByName_def g
        setFieldValue_def Set_field_def exported_field_def)
  from c p show ?thesis by (simp add: net_IP_def Zero_def)
qed

subsection \<open>The first failure ends the bind\<close>

lemma parseFields_append:
  "parseFields L r pre = (pre', Done) \<Longrightarrow>
   parseFields L r (pre @ rest) = (case parseFields L r rest of (rest', out) \<Rightarrow> (pre' @ rest', out))"
proof (induction pre arbitrary: pre')
  case Nil
  then show ?case by simp
next
  case (Cons f pre)
  then show ?case
    by (cases f) (auto split: prod.splits outcome.splits)
qed

text \<open>
  C3. When the fields before some field bind without error, and that field has a binding,
  its value is located, and the conversion of the value fails, then the bind of the record
  returns the fields before it as they were written, that field and every field after it
  as they were before the call, and an error that wraps the cause in a text holding the
  name of the field and its whole tag. The result does not depend on the fields after it.
\<close>

theorem first_failure_stops_bind:
  assumes "parseFields L r pre = (pre', Done)"
    and "readTag L (Tag sf) = Inr (Some opts)"
    and "(columnName opts \<noteq> [] \<and> Get r (columnName opts) = Ok v)
         \<or> (columnName opts = [] \<and> 0 \<le> index_opt opts
            \<and> index_opt opts < int (length (columns r))
            \<and> v = columns r ! nat (index_opt opts))"
    and "convertToType L v sf opts = Inl e"
  shows "parseFields L r (pre @ (sf, d) # post)
           = (pre' @ (sf, d) # post, Failed (Wrapf (conversion_text v sf) e))
       \<and> sublist (Name sf) (conversion_text v sf)
       \<and> sublist (Tag sf) (conversion_text v sf)"
proof -
  have "setFieldValue L v \<lparr>structField = sf, rv = d, tagOpts = opts\<rparr>
          = (d, Failed (Wrapf (conversion_text v sf) e))"
    using assms(4) by (simp add: setFieldValue_def)
  with assms(3) have "handleFieldByTagOptions L r \<lparr>structField = sf, rv = d, tagOpts = opts\<rparr>
          = (d, Failed (Wrapf (conversion_text v sf) e))"
    by (auto simp: handleFieldByTagOptions_def handleFieldByName_def handleFieldByIndex_def
        index_def)
  with assms(2) have "parseFieldValue L r sf d = (d, Failed (Wrapf (conversion_text v sf) e))"
    by (simp add: parseFieldValue_def)
  then have "parseFields L r ((sf, d) # post)
          = ((sf, d) # post, Failed (Wrapf (conversion_text v sf) e))"
    by simp
  with assms(1) have run: "parseFields L r (pre @ (sf, d) # post)
           = (pre' @ (sf, d) # post, Failed (Wrapf (conversion_text v sf) e))"
    by (simp add: parseFields_append)
  have "conversion_text v sf
          = (''failed to convert value '' @ v @ '' to type '' @ kind_String (Kind (Type sf))
               @ '' in field '') @ Name sf @ ('' ['' @ Tag sf @ '']: '')"
    by (simp add: conversion_text_def)
  then have name: "sublist (Name sf) (conversion_text v sf)"
    by (metis sublist_appendI)
  have "conversion_text v sf
          = (''failed to convert value '' @ v @ '' to type '' @ kind_String (Kind (Type sf))
               @ '' in field '' @ Name sf @ '' ['') @ Tag sf @ '']: ''"
    by (simp add: conversion_text_def)
  then have tag: "sublist (Tag sf) (conversion_text v sf)"
    by (metis sublist_appendI)
  from run name tag show ?thesis by simp
qed

lemma three_columns: "columns three_column_reader = [''hello'', ''notanint'', ''true'']"
  by (simp add: three_column_reader_def Next_def ReadHeader_def SetHeader_def empty_reader_def)

lemma three_columnIndex:
  "columnIndex three_column_reader = [''a'' \<mapsto> 0, ''b'' \<mapsto> 1, ''c'' \<mapsto> 2]"
  by (simp add: three_column_reader_def Next_def ReadHeader_def SetHeader_def empty_reader_def
      enumerate_eq_zip)

theorem first_failure_stops_bind_witness:
  \<open>parseFields example_lib three_column_reader three_field_struct
     = ([(exported_field ''A'' string_type ''csv:"a"'', DString ''hello''),
         (exported_field ''B'' int_type ''csv:"b"'', DInt 0),
         (exported_field ''C'' bool_type ''csv:"c"'', DBool False)],
        Failed (Wrapf ''failed to convert value notanint to type int in field B [csv:"b"]: ''
                  (NumError ''ParseInt'' ''notanint'' ErrSyntax)))\<close>
proof -
  have pre: \<open>parseFields example_lib three_column_reader
               [(exported_field ''A'' string_type ''csv:"a"'', DString [])]
             = ([(exported_field ''A'' string_type ''csv:"a"'', DString ''hello'')], Done)\<close>
    by (simp add: exported_field_def parseFieldValue_def tag_simps
        handleFieldByTagOptions_def handleFieldByName_def Get_def three_columnIndex
        three_columns index_def setFieldValue_def convertToType_def string_type_def
        Set_field_def)
  have tag: \<open>readTag example_lib (Tag (exported_field ''B'' int_type ''csv:"b"''))
             = Inr (Some \<lparr>columnName = ''b'', index_opt = - 1, format = []\<rparr>)\<close>
    by (simp add: exported_field_def tag_simps)
  have loc: "Get three_column_reader ''b'' = Ok ''notanint''"
    by (simp add: Get_def three_columnIndex three_columns index_def)
  have conv: \<open>convertToType example_lib ''notanint'' (exported_field ''B'' int_type ''csv:"b"'')
               \<lparr>columnName = ''b'', index_opt = - 1, format = []\<rparr>
             = Inl (NumError ''ParseInt'' ''notanint'' ErrSyntax)\<close>
    by (simp add: convertToType_def exported_field_def int_type_def example_lib_def
        ParseInt_def ParseUint_def)
  have msg: \<open>conversion_text ''notanint'' (exported_field ''B'' int_type ''csv:"b"'')
             = ''failed to convert value notanint to type int in field B [csv:"b"]: ''\<close>
    by (simp add: conversion_text_def exported_field_def int_type_def)
  from first_failure_stops_bind [OF pre tag _ conv,
      of "DInt 0" "[(exported_field ''C'' bool_type ''csv:\"c\"'', DBool False)]"] loc
  show ?thesis
    by (simp add: three_field_struct_def msg)
qed

subsection \<open>Literals of the primitive kinds\<close>

lemma digit_char: "d < 10 \<Longrightarrow> (of_char (''0123456789'' ! d) :: nat) = 48 + d"
proof -
  assume "d < 10"
  then have "d = 0 \<or> d = 1 \<or> d = 2 \<or> d = 3 \<or> d = 4 \<or> d = 5 \<or> d = 6
    \<or> d = 7 \<or> d = 8 \<or> d = 9"
    by presburger
  then show ?thesis by (elim disjE) simp_all
qed

lemma ParseUint_loop_append:
  "ParseUint_loop M n (xs @ [c]) =
     (case ParseUint_loop M n xs of Inl e \<Rightarrow> Inl e | Inr n' \<Rightarrow> ParseUint_loop M n' [c])"
  by (induction xs arbitrary: n) simp_all

lemma cutoff64_bound: "m < 2 ^ 64 \<Longrightarrow> m div 10 < cutoff64"
  by (simp add: cutoff64_def)

lemma ParseUint_loop_digits:
  "m \<le> M \<Longrightarrow> M < 2 ^ 64 \<Longrightarrow> ParseUint_loop M 0 (digits m) = Inr m"
proof (induction m rule: digits.induct)
  case (1 n)
  show ?case
  proof (cases "n < 10")
    case True
    then have "digits n = [''0123456789'' ! n]" by (subst digits.simps) simp
    with True 1 show ?thesis
      by (simp add: digit_char cutoff64_def del: digits.simps)
  next
    case False
    then have d: "digits n = digits (n div 10) @ [''0123456789'' ! (n mod 10)]"
      by (subst digits.simps) simp
    have "n div 10 \<le> M" using 1(2) by simp
    with 1 False have ih: "ParseUint_loop M 0 (digits (n div 10)) = Inr (n div 10)" by simp
    have c: "n div 10 < cutoff64" using 1 by (intro cutoff64_bound) simp
    have "(of_char (''0123456789'' ! (n mod 10)) :: nat) = 48 + n mod 10"
      by (rule digit_char) simp
    with c 1(2,3) show ?thesis
      unfolding d ParseUint_loop_append ih by (simp del: digits.simps)
  qed
qed

lemma digits_chars: "c \<in> set (digits n) \<Longrightarrow> 48 \<le> (of_char c :: nat) \<and> (of_char c :: nat) \<le> 57"
proof (induction n rule: digits.induct)
  case (1 n)
  show ?case
  proof (cases "n < 10")
    case True
    then have "digits n = [''0123456789'' ! n]" by (subst digits.simps) simp
    with 1(2) True show ?thesis by (simp add: digit_char del: digits.simps)
  next
    case False
    then have d: "digits n = digits (n div 10) @ [''0123456789'' ! (n mod 10)]"
      by (subst digits.simps) simp
    have "(of_char (''0123456789'' ! (n mod 10)) :: nat) = 48 + n mod 10"
      by (rule digit_char) simp
    with 1 False d show ?thesis by (auto simp del: digits.simps)
  qed
qed

lemma digits_not_Nil: "digits n \<noteq> []"
  by (subst digits.simps) (simp del: digits.simps)

lemma hd_digits: "hd (digits n) \<noteq> CHR ''+'' \<and> hd (digits n) \<noteq> CHR ''-''"
proof -
  have "hd (digits n) \<in> set (digits n)" by (simp add: digits_not_Nil del: digits.simps)
  then have "48 \<le> (of_char (hd (digits n)) :: nat)" by (simp add: digits_chars del: digits.simps)
  then show ?thesis by (auto simp del: digits.simps)
qed

lemma ParseUint_digits:
  assumes "n < 2 ^ b" and "0 < b" and "b \<le> 64"
  shows "ParseUint intSize (digits n) b = (n, None)"
proof -
  have "(2::nat) ^ b \<le> 2 ^ 64" using assms(3) by (intro power_increasing) simp_all
  then have "(2::nat) ^ b - 1 < 2 ^ 64" by (simp add: less_le_trans [of _ "2 ^ b"])
  moreover have "n \<le> 2 ^ b - 1" using assms(1) by simp
  ultimately have "ParseUint_loop (2 ^ b - 1) 0 (digits n) = Inr n"
    by (intro ParseUint_loop_digits)
  with assms show ?thesis
    by (simp add: ParseUint_def digits_not_Nil del: digits.simps)
qed

lemma ParseInt_Itoa:
  assumes "- (2 ^ (b - 1)) \<le> i" and "i < 2 ^ (b - 1)" and "0 < b" and "b \<le> 64"
  shows "ParseInt intSize (Itoa i) b = (i, None)"
proof (cases "i < 0")
  case True
  then have le: "nat (- i) \<le> 2 ^ (b - 1)" using assms(1) by (simp add: nat_le_iff)
  moreover have "(2::nat) ^ (b - 1) < 2 ^ b" using assms(3) by (intro power_strict_increasing) simp_all
  ultimately have "nat (- i) < 2 ^ b" by (rule le_less_trans)
  then have "ParseUint intSize (digits (nat (- i))) b = (nat (- i), None)"
    using assms(3,4) by (rule ParseUint_digits)
  with True assms le show ?thesis
    by (simp add: ParseInt_def Itoa_def del: digits.simps)
next
  case False
  then have less: "nat i < 2 ^ (b - 1)" using assms(2) by (simp add: nat_less_iff)
  moreover have "(2::nat) ^ (b - 1) < 2 ^ b" using assms(3) by (intro power_strict_increasing) simp_all
  ultimately have "nat i < 2 ^ b" by (rule less_trans)
  then have "ParseUint intSize (digits (nat i)) b = (nat i, None)"
    using assms(3,4) by (rule ParseUint_digits)
  with False assms less hd_digits [of "nat i"] show ?thesis
    by (simp add: ParseInt_def Itoa_def digits_not_Nil del: digits.simps)
qed


lemma Convert_int_in_range:
  assumes "- (2 ^ (Bits n (Kind t) - 1)) \<le> i" and "i < 2 ^ (Bits n (Kind t) - 1)"
    and "0 < Bits n (Kind t)"
  shows "Convert_int n t i = Value t (DInt i)"
proof -
  let ?b = "Bits n (Kind t)"
  have "(2::int) ^ ?b = 2 * 2 ^ (?b - 1)"
    using assms(3) by (cases ?b) simp_all
  with assms have "0 \<le> i + 2 ^ (?b - 1)" and "i + 2 ^ (?b - 1) < 2 ^ ?b"
    by simp_all
  then have "(i + 2 ^ (?b - 1)) mod 2 ^ ?b = i + 2 ^ (?b - 1)"
    by (rule mod_pos_pos_trivial)
  then show ?thesis by (simp add: Convert_int_def Let_def)
qed

lemma Bits_integer_kinds:
  assumes "n = 32 \<or> n = 64"
    and "k \<in> set [KInt, KInt8, KInt16, KInt32, KInt64, KUint, KUint8, KUint16, KUint32, KUint64]"
  shows "0 < Bits n k \<and> Bits n k \<le> 64"
  using assms by auto

text \<open>
  C7. The decimal literal of every integer in the range of a signed kind converts to that
  integer, and of every natural number in the range of an unsigned kind to that number,
  at every bit width (\<open>42\<close> to 42); \<open>true\<close>, \<open>1\<close> and \<open>T\<close> convert to true, and
  \<open>false\<close>, \<open>0\<close> and \<open>F\<close> to false; a string field receives the raw value as it is;
  and a float field receives the very number that \<open>strconv.ParseFloat\<close> yields at the
  width of the kind.
\<close>

theorem literals_convert:
  assumes "IntSize L = 32 \<or> IntSize L = 64"
  shows
    "(Kind (Type sf) \<in> set [KInt, KInt8, KInt16, KInt32, KInt64]
        \<and> - (2 ^ (Bits (IntSize L) (Kind (Type sf)) - 1)) \<le> i
        \<and> i < 2 ^ (Bits (IntSize L) (Kind (Type sf)) - 1)
      \<longrightarrow> convertToType L (Itoa i) sf opts = Inr (Value (Type sf) (DInt i)))
   \<and> (Kind (Type sf) \<in> set [KUint, KUint8, KUint16, KUint32, KUint64]
        \<and> n < 2 ^ Bits (IntSize L) (Kind (Type sf))
      \<longrightarrow> convertToType L (digits n) sf opts = Inr (Value (Type sf) (DUint n)))
   \<and> (Kind (Type sf) \<in> set [KFloat32, KFloat64]
        \<and> ParseFloat L v (Bits (IntSize L) (Kind (Type sf))) = Inr x
      \<longrightarrow> convertToType L v sf opts = Inr (Value (Type sf) (DFloat x)))
   \<and> (Kind (Type sf) = KBool \<and> v \<in> set [''true'', ''1'', ''T'']
      \<longrightarrow> convertToType L v sf opts = Inr (Value (Type sf) (DBool True)))
   \<and> (Kind (Type sf) = KBool \<and> v \<in> set [''false'', ''0'', ''F'']
      \<longrightarrow> convertToType L v sf opts = Inr (Value (Type sf) (DBool False)))
   \<and> (Kind (Type sf) = KString
      \<longrightarrow> convertToType L v sf opts = Inr (Value (Type sf) (DString v)))"
proof -
  let ?k = "Kind (Type sf)"
  let ?b = "Bits (IntSize L) ?k"
  have signed: "convertToType L (Itoa i) sf opts = Inr (Value (Type sf) (DInt i))"
    if k: "?k \<in> set [KInt, KInt8, KInt16, KInt32, KInt64]"
      and lo: "- (2 ^ (?b - 1)) \<le> i" and hi: "i < 2 ^ (?b - 1)"
  proof -
    from assms k have b: "0 < ?b \<and> ?b \<le> 64" by (intro Bits_integer_kinds) auto
    with lo hi have "ParseInt (IntSize L) (Itoa i) ?b = (i, None)"
      by (intro ParseInt_Itoa) simp_all
    moreover have "Convert_int (IntSize L) (Type sf) i = Value (Type sf) (DInt i)"
      using lo hi b by (intro Convert_int_in_range) simp_all
    ultimately show ?thesis
      using k by (simp add: convertToType_def del: digits.simps)
  qed
  have unsigned: "convertToType L (digits n) sf opts = Inr (Value (Type sf) (DUint n))"
    if k: "?k \<in> set [KUint, KUint8, KUint16, KUint32, KUint64]" and hi: "n < 2 ^ ?b"
  proof -
    from assms k have b: "0 < ?b \<and> ?b \<le> 64" by (intro Bits_integer_kinds) auto
    with hi have "ParseUint (IntSize L) (digits n) ?b = (n, None)"
      by (intro ParseUint_digits) simp_all
    then show ?thesis
      using k hi by (auto simp: convertToType_def Convert_uint_def simp del: digits.simps)
  qed
  have float: "convertToType L v sf opts = Inr (Value (Type sf) (DFloat x))"
    if "?k \<in> set [KFloat32, KFloat64]" and "ParseFloat L v ?b = Inr x"
    using that by (auto simp: convertToType_def)
  have true: "convertToType L v sf opts = Inr (Value (Type sf) (DBool True))"
    if "?k = KBool" and "v \<in> set [''true'', ''1'', ''T'']"
    using that by (auto simp: convertToType_def ParseBool_def)
  have false: "convertToType L v sf opts = Inr (Value (Type sf) (DBool False))"
    if "?k = KBool" and "v \<in> set [''false'', ''0'', ''F'']"
    using that by (auto simp: convertToType_def ParseBool_def)
  have str: "convertToType L v sf opts = Inr (Value (Type sf) (DString v))"
    if "?k = KString"
    using that by (simp add: convertToType_def)
  from signed unsigned float true false str show ?thesis by blast
qed

theorem literals_convert_witness:
  "Itoa 42 = ''42''
   \<and> convertToType example_lib ''42'' (exported_field ''Age'' int_type []) unset_options
       = Inr (Value int_type (DInt 42))
   \<and> convertToType example_lib ''-128'' (exported_field ''B'' (Named ''int8'' KInt8 False) []) unset_options
       = Inr (Value (Named ''int8'' KInt8 False) (DInt (- 128)))
   \<and> convertToType example_lib ''255'' (exported_field ''U'' (Named ''uint8'' KUint8 False) []) unset_options
       = Inr (Value (Named ''uint8'' KUint8 False) (DUint 255))
   \<and> convertToType example_lib ''true'' (exported_field ''Ok'' bool_type []) unset_options
       = Inr (Value bool_type (DBool True))
   \<and> convertToType example_lib ''1'' (exported_field ''Ok'' bool_type []) unset_options
       = Inr (Value bool_type (DBool True))
   \<and> convertToType example_lib ''T'' (exported_field ''Ok'' bool_type []) unset_options
       = Inr (Value bool_type (DBool True))
   \<and> convertToType example_lib '' a b '' (exported_field ''S'' string_type []) unset_options
       = Inr (Value string_type (DString '' a b ''))"
proof -
  have L: "IntSize example_lib = 32 \<or> IntSize example_lib = 64"
    by (simp add: example_lib_def)
  have i42: "Itoa 42 = ''42''" and i128: "Itoa (- 128) = ''-128''" and d255: "digits 255 = ''255''"
    by (simp_all add: Itoa_def)
  have B: "IntSize example_lib = 64"
    by (simp add: example_lib_def)
  show ?thesis
    using literals_convert [OF L, of "exported_field ''Age'' int_type []" 42 unset_options]
      literals_convert [OF L, of "exported_field ''B'' (Named ''int8'' KInt8 False) []" "- 128" unset_options]
      literals_convert [OF L, of "exported_field ''U'' (Named ''uint8'' KUint8 False) []" _ unset_options 255]
      literals_convert [OF L, of "exported_field ''Ok'' bool_type []" _ unset_options _ "''true''"]
      literals_convert [OF L, of "exported_field ''Ok'' bool_type []" _ unset_options _ "''1''"]
      literals_convert [OF L, of "exported_field ''Ok'' bool_type []" _ unset_options _ "''T''"]
      literals_convert [OF L, of "exported_field ''S'' string_type []" _ unset_options _ "'' a b ''"]
    by (simp add: i42 i128 d255 B exported_field_def int_type_def bool_type_def string_type_def
        del: digits.simps)
qed

end
